theory Spec2Isabelle
  imports Main "HOL-Library.Sublist"
begin

section \<open>The provisioning SDK as the script sees it\<close>

text \<open>
  The script \<^verbatim>\<open>src/pulumi/__main__.py\<close> is a sequence of calls of resource constructors of
  the provisioning SDK, followed by two calls of \<^verbatim>\<open>pulumi.export\<close>. The SDK and its engine
  are not part of the repository. What the script relies on is modelled here:
  a constructor call hands a resource configuration to the engine and returns a handle;
  an attribute of a handle (\<^verbatim>\<open>vpc.id\<close>) is a lazily resolved output; the engine may raise.
\<close>

text \<open>The provider-defined resource classes the script imports and instantiates.\<close>

datatype rtype =
    Ec2_Vpc
  | Ec2_Subnet
  | Ec2_InternetGateway
  | Ec2_RouteTable
  | Ec2_RouteTableAssociation
  | Ec2_SecurityGroup
  | Ecr_Repository
  | Ecs_Cluster
  | Iam_Role
  | Ecs_TaskDefinition
  | Lb_LoadBalancer
  | Lb_TargetGroup
  | Lb_Listener
  | Ecs_Service

text \<open>A resource handle: the class and the logical name given to the constructor.\<close>

datatype handle = Handle rtype string

text \<open>
  Values given to the SDK. \<open>Str\<close>, \<open>Bool\<close>, \<open>Num\<close>, \<open>Arr\<close> and \<open>Obj\<close> are Python's
  str, bool, int, list and dict (or an \<^verbatim>\<open>...Args\<close> record, as its keyword arguments in
  order). \<open>Out\<close> is an output: \<open>Attr h a\<close> the attribute \<open>a\<close> of the resource \<open>h\<close>,
  \<open>Apply f x\<close> is \<^verbatim>\<open>x.apply(f)\<close>, and \<open>Json_dumps v\<close> is
  \<^verbatim>\<open>pulumi.Output.json_dumps(v)\<close>.
\<close>

datatype input =
    Str string
  | Bool bool
  | Num int
  | Arr "input list"
  | Obj "(string \<times> input) list"
  | Out outp
and outp =
    Attr handle string
  | Apply "string \<Rightarrow> string" outp
  | Json_dumps input

record resource =
  rtype_of :: rtype
  name :: string
  props :: "(string \<times> input) list"

text \<open>What the script asks of the engine: to register a resource, or to export a value.\<close>

datatype request = Register resource | Export string input

text \<open>An exception raised by the SDK or the engine.\<close>

datatype error = Error string

text \<open>
  The engine is not in the repository and is a parameter: given the requests issued so
  far and the next one, it either accepts it (\<open>None\<close>) or raises (\<open>Some e\<close>).
\<close>

type_synonym engine = "request list \<Rightarrow> request \<Rightarrow> error option"

text \<open>
  A statement of the script runs on the list of requests issued so far. It returns
  a value or an exception, and the extended list.
\<close>

type_synonym 'a prog = "request list \<Rightarrow> (error + 'a) \<times> request list"

text \<open>
  Two statements in sequence: Python runs the second only when the first has not raised;
  the script has no \<^verbatim>\<open>try\<close>, so an exception ends the run.
\<close>

definition and_then :: "'a prog \<Rightarrow> ('a \<Rightarrow> 'b prog) \<Rightarrow> 'b prog" where
  "and_then m f = (\<lambda>log.
     case m log of
       (Inl e, log') \<Rightarrow> (Inl e, log')
     | (Inr x, log') \<Rightarrow> f x log')"

text \<open>
  Modelled from the spec: the resource constructors of the SDK, which are not in the
  repository. The spec describes them as "the provisioning SDK's resource-declaration API
  (inputs: resource configuration records; outputs: resource handles with lazily-resolved
  attributes)". A call such as \<^verbatim>\<open>ec2.Vpc("myapp-vpc", cidr_block=...)\<close> hands the
  configuration to the engine and returns the handle, unless the engine raises. The
  request is recorded as issued in both cases.
\<close>

definition register :: "engine \<Rightarrow> rtype \<Rightarrow> string \<Rightarrow> (string \<times> input) list \<Rightarrow> handle prog" where
  "register eng t n ps = (\<lambda>log.
     let r = Register \<lparr>rtype_of = t, name = n, props = ps\<rparr> in
     case eng log r of
       Some e \<Rightarrow> (Inl e, log @ [r])
     | None \<Rightarrow> (Inr (Handle t n), log @ [r]))"

text \<open>
  Modelled from the spec: \<^verbatim>\<open>pulumi.export(key, value)\<close>, which is not in the repository,
  hands an "exported value" to the engine under a key.
\<close>

definition export :: "engine \<Rightarrow> string \<Rightarrow> input \<Rightarrow> unit prog" where
  "export eng k v = (\<lambda>log.
     let r = Export k v in
     case eng log r of
       Some e \<Rightarrow> (Inl e, log @ [r])
     | None \<Rightarrow> (Inr (), log @ [r]))"

section \<open>The script\<close>

text \<open>
  The module body of \<^verbatim>\<open>__main__.py\<close>, statement by statement. \<open>json_dumps\<close> is
  \<^verbatim>\<open>json.dumps\<close> of Python's standard library, a parameter.
\<close>

definition main :: "(input \<Rightarrow> string) \<Rightarrow> engine \<Rightarrow> unit prog" where
  "main json_dumps eng =
    and_then (register eng Ec2_Vpc ''myapp-vpc''
      [(''cidr_block'', Str ''10.0.0.0/16''),
       (''enable_dns_hostnames'', Bool True),
       (''enable_dns_support'', Bool True)]) (\<lambda>vpc.
    and_then (register eng Ec2_Subnet ''public-subnet-1''
      [(''vpc_id'', Out (Attr vpc ''id'')),
       (''cidr_block'', Str ''10.0.1.0/24''),
       (''availability_zone'', Str ''us-east-1a''),
       (''map_public_ip_on_launch'', Bool True)]) (\<lambda>public_subnet_1.
    and_then (register eng Ec2_Subnet ''public-subnet-2''
      [(''vpc_id'', Out (Attr vpc ''id'')),
       (''cidr_block'', Str ''10.0.2.0/24''),
       (''availability_zone'', Str ''us-east-1b''),
       (''map_public_ip_on_launch'', Bool True)]) (\<lambda>public_subnet_2.
    and_then (register eng Ec2_InternetGateway ''myapp-igw''
      [(''vpc_id'', Out (Attr vpc ''id''))]) (\<lambda>internet_gateway.
    and_then (register eng Ec2_RouteTable ''myapp-rt''
      [(''vpc_id'', Out (Attr vpc ''id'')),
       (''routes'', Arr
          [Obj [(''cidr_block'', Str ''0.0.0.0/0''),
                (''gateway_id'', Out (Attr internet_gateway ''id''))]])]) (\<lambda>route_table.
    and_then (register eng Ec2_RouteTableAssociation ''rta-1''
      [(''subnet_id'', Out (Attr public_subnet_1 ''id'')),
       (''route_table_id'', Out (Attr route_table ''id''))]) (\<lambda>_.
    and_then (register eng Ec2_RouteTableAssociation ''rta-2''
      [(''subnet_id'', Out (Attr public_subnet_2 ''id'')),
       (''route_table_id'', Out (Attr route_table ''id''))]) (\<lambda>_.
    and_then (register eng Ec2_SecurityGroup ''myapp-sg''
      [(''description'', Str ''Allow inbound traffic for the Rails app''),
       (''vpc_id'', Out (Attr vpc ''id'')),
       (''ingress'', Arr
          [Obj [(''protocol'', Str ''tcp''),
                (''from_port'', Num 80),
                (''to_port'', Num 80),
                (''cidr_blocks'', Arr [Str ''0.0.0.0/0''])]]),
       (''egress'', Arr
          [Obj [(''protocol'', Str ''-1''),
                (''from_port'', Num 0),
                (''to_port'', Num 0),
                (''cidr_blocks'', Arr [Str ''0.0.0.0/0''])]])]) (\<lambda>security_group.
    and_then (register eng Ecr_Repository ''myapp-repo''
      [(''name'', Str ''myapp-repo'')]) (\<lambda>ecr_repo.
    and_then (register eng Ecs_Cluster ''myapp-cluster''
      [(''name'', Str ''myapp-cluster'')]) (\<lambda>cluster.
    and_then (register eng Iam_Role ''myapp-task-exec-role''
      [(''assume_role_policy'', Str (json_dumps (Obj
          [(''Version'', Str ''2008-10-17''),
           (''Statement'', Arr
              [Obj [(''Sid'', Str ''''),
                    (''Effect'', Str ''Allow''),
                    (''Principal'', Obj [(''Service'', Str ''ecs-tasks.amazonaws.com'')]),
                    (''Action'', Str ''sts:AssumeRole'')]])])))]) (\<lambda>role.
    and_then (register eng Ecs_TaskDefinition ''myapp-task''
      [(''family'', Str ''myapp-task-family''),
       (''cpu'', Str ''256''),
       (''memory'', Str ''512''),
       (''network_mode'', Str ''awsvpc''),
       (''requires_compatibilities'', Arr [Str ''FARGATE'']),
       (''execution_role_arn'', Out (Attr role ''arn'')),
       (''container_definitions'', Out (Json_dumps (Arr
          [Obj [(''name'', Str ''myapp''),
                (''image'', Out (Apply (\<lambda>url. url @ '':latest'')
                                  (Attr ecr_repo ''repository_url''))),
                (''portMappings'', Arr
                   [Obj [(''containerPort'', Num 3000),
                         (''hostPort'', Num 3000),
                         (''protocol'', Str ''tcp'')]]),
                (''secrets'', Arr
                   [Obj [(''name'', Str ''DATABASE_URL''),
                         (''valueFrom'', Str
                            ''arn:aws:ssm:us-east-1:774287600271:parameter/myapp/database_url'')]])]])))])
      (\<lambda>task_definition.
    and_then (register eng Lb_LoadBalancer ''myapp-alb''
      [(''load_balancer_type'', Str ''application''),
       (''security_groups'', Arr [Out (Attr security_group ''id'')]),
       (''subnets'', Arr [Out (Attr public_subnet_1 ''id''),
                          Out (Attr public_subnet_2 ''id'')])]) (\<lambda>alb.
    and_then (register eng Lb_TargetGroup ''myapp-tg''
      [(''port'', Num 80),
       (''protocol'', Str ''HTTP''),
       (''target_type'', Str ''ip''),
       (''vpc_id'', Out (Attr vpc ''id''))]) (\<lambda>target_group.
    and_then (register eng Lb_Listener ''myapp-listener''
      [(''load_balancer_arn'', Out (Attr alb ''arn'')),
       (''port'', Num 80),
       (''default_actions'', Arr
          [Obj [(''type'', Str ''forward''),
                (''target_group_arn'', Out (Attr target_group ''arn''))]])]) (\<lambda>listener.
    and_then (register eng Ecs_Service ''myapp-service''
      [(''cluster'', Out (Attr cluster ''arn'')),
       (''desired_count'', Num 1),
       (''task_definition'', Out (Attr task_definition ''arn'')),
       (''network_configuration'', Obj
          [(''assign_public_ip'', Bool True),
           (''subnets'', Arr [Out (Attr public_subnet_1 ''id''),
                              Out (Attr public_subnet_2 ''id'')]),
           (''security_groups'', Arr [Out (Attr security_group ''id'')])]),
       (''load_balancers'', Arr
          [Obj [(''target_group_arn'', Out (Attr target_group ''arn'')),
                (''container_name'', Str ''myapp''),
                (''container_port'', Num 3000)]]),
       (''capacity_provider_strategies'', Arr
          [Obj [(''capacity_provider'', Str ''FARGATE_SPOT''),
                (''weight'', Num 1)]])]) (\<lambda>service.
    and_then (export eng ''ecr_repo_url'' (Out (Attr ecr_repo ''repository_url''))) (\<lambda>_.
    export eng ''alb_dns_name'' (Out (Attr alb ''dns_name'')))))))))))))))))))"

text \<open>A run of the script starts with nothing issued.\<close>

definition run :: "(input \<Rightarrow> string) \<Rightarrow> engine \<Rightarrow> (error + unit) \<times> request list" where
  "run json_dumps eng = main json_dumps eng []"

section \<open>Reading a run\<close>

text \<open>The engine that accepts every request.\<close>

definition accept_all :: engine where
  "accept_all = (\<lambda>log r. None)"

text \<open>What the script issues when nothing raises: its declarations and exports, in order.\<close>

definition declarations :: "(input \<Rightarrow> string) \<Rightarrow> request list" where
  "declarations json_dumps = snd (run json_dumps accept_all)"

fun resources :: "request list \<Rightarrow> resource list" where
  "resources [] = []"
| "resources (Register r # rs) = r # resources rs"
| "resources (Export k v # rs) = resources rs"

fun exports :: "request list \<Rightarrow> (string \<times> input) list" where
  "exports [] = []"
| "exports (Register r # rs) = exports rs"
| "exports (Export k v # rs) = (k, v) # exports rs"

text \<open>The logical name of a declaration, the key of an export.\<close>

fun label_of :: "request \<Rightarrow> string" where
  "label_of (Register r) = name r"
| "label_of (Export k v) = k"

definition of_type :: "rtype \<Rightarrow> request list \<Rightarrow> resource list" where
  "of_type t log = filter (\<lambda>r. rtype_of r = t) (resources log)"

definition handle_of :: "resource \<Rightarrow> handle" where
  "handle_of r = Handle (rtype_of r) (name r)"

text \<open>A keyword argument of a declaration, and an entry of a dict or \<^verbatim>\<open>...Args\<close> record.\<close>

definition prop_of :: "resource \<Rightarrow> string \<Rightarrow> input option" where
  "prop_of r k = map_of (props r) k"

fun field_of :: "input \<Rightarrow> string \<Rightarrow> input option" where
  "field_of (Obj kvs) k = map_of kvs k"
| "field_of v k = None"

text \<open>
  Modelled from the spec: the "lazily-resolved attributes" of the handles, which the
  engine, not the repository, resolves. Once it knows the attributes of the resources,
  \<open>\<rho> h a\<close> is the resolved attribute \<open>a\<close> of the resource \<open>h\<close>. \<^verbatim>\<open>apply\<close> runs its
  callback on the resolved value, \<^verbatim>\<open>Output.json_dumps\<close> serialises the resolved value.
\<close>

type_synonym resolver = "handle \<Rightarrow> string \<Rightarrow> string"

primrec resolve :: "resolver \<Rightarrow> (input \<Rightarrow> string) \<Rightarrow> input \<Rightarrow> input"
  and resolve_out :: "resolver \<Rightarrow> (input \<Rightarrow> string) \<Rightarrow> outp \<Rightarrow> string" where
  "resolve \<rho> d (Str s) = Str s"
| "resolve \<rho> d (Bool b) = Bool b"
| "resolve \<rho> d (Num n) = Num n"
| "resolve \<rho> d (Arr vs) = Arr (map (resolve \<rho> d) vs)"
| "resolve \<rho> d (Obj kvs) = Obj (map (map_prod id (resolve \<rho> d)) kvs)"
| "resolve \<rho> d (Out x) = Str (resolve_out \<rho> d x)"
| "resolve_out \<rho> d (Attr h a) = \<rho> h a"
| "resolve_out \<rho> d (Apply f x) = f (resolve_out \<rho> d x)"
| "resolve_out \<rho> d (Json_dumps v) = d (resolve \<rho> d v)"

text \<open>The functions written in the script itself and handed to the SDK as callbacks.\<close>

primrec callbacks :: "input \<Rightarrow> (string \<Rightarrow> string) list"
  and callbacks_out :: "outp \<Rightarrow> (string \<Rightarrow> string) list" where
  "callbacks (Str s) = []"
| "callbacks (Bool b) = []"
| "callbacks (Num n) = []"
| "callbacks (Arr vs) = concat (map callbacks vs)"
| "callbacks (Obj kvs) = concat (map snd (map (map_prod id callbacks) kvs))"
| "callbacks (Out x) = callbacks_out x"
| "callbacks_out (Attr h a) = []"
| "callbacks_out (Apply f x) = f # callbacks_out x"
| "callbacks_out (Json_dumps v) = callbacks v"


subsection \<open>The resources the spec lists\<close>

text \<open>
  Following the spec's words, not the code: "a fixed set of AWS resources (VPC, subnets,
  routing, security group, ECR repository, ECS cluster/task/service, and an Application
  Load Balancer)". The internet gateway, the route table and its associations are read as
  routing; the target group and the listener as parts of the load balancer.
\<close>

datatype spec_item =
    The_VPC
  | Subnets
  | Routing
  | The_security_group
  | The_ECR_repository
  | The_ECS_cluster
  | The_ECS_task
  | The_ECS_service
  | The_load_balancer

fun spec_lists :: "rtype \<Rightarrow> spec_item option" where
  "spec_lists Ec2_Vpc = Some The_VPC"
| "spec_lists Ec2_Subnet = Some Subnets"
| "spec_lists Ec2_InternetGateway = Some Routing"
| "spec_lists Ec2_RouteTable = Some Routing"
| "spec_lists Ec2_RouteTableAssociation = Some Routing"
| "spec_lists Ec2_SecurityGroup = Some The_security_group"
| "spec_lists Ecr_Repository = Some The_ECR_repository"
| "spec_lists Ecs_Cluster = Some The_ECS_cluster"
| "spec_lists Ecs_TaskDefinition = Some The_ECS_task"
| "spec_lists Ecs_Service = Some The_ECS_service"
| "spec_lists Lb_LoadBalancer = Some The_load_balancer"
| "spec_lists Lb_TargetGroup = Some The_load_balancer"
| "spec_lists Lb_Listener = Some The_load_balancer"
| "spec_lists Iam_Role = None"

subsection \<open>CIDR blocks\<close>

text \<open>
  The script gives its address ranges as strings in CIDR notation, which the cloud
  provider reads: four decimal octets and a prefix length. An address is a number below
  \<open>2 ^ 32\<close>; a block \<open>(a, l)\<close> holds the addresses that agree with \<open>a\<close> on the first
  \<open>l\<close> bits.
\<close>

fun split_on :: "char \<Rightarrow> string \<Rightarrow> string list" where
  "split_on c [] = [[]]"
| "split_on c (x # xs) =
     (if x = c then [] # split_on c xs
      else (case split_on c xs of
              w # ws \<Rightarrow> (x # w) # ws
            | [] \<Rightarrow> [[x]]))"

definition digit :: "char \<Rightarrow> nat option" where
  "digit c = (let n = of_char c :: nat in if 48 \<le> n \<and> n \<le> 57 then Some (n - 48) else None)"

fun decimal_acc :: "nat \<Rightarrow> string \<Rightarrow> nat option" where
  "decimal_acc acc [] = Some acc"
| "decimal_acc acc (c # cs) =
     (case digit c of None \<Rightarrow> None | Some n \<Rightarrow> decimal_acc (10 * acc + n) cs)"

definition decimal :: "string \<Rightarrow> nat option" where
  "decimal s = (if s = [] then None else decimal_acc 0 s)"

definition parse_ipv4 :: "string \<Rightarrow> nat option" where
  "parse_ipv4 s =
     (case map decimal (split_on CHR ''.'' s) of
        [Some a, Some b, Some c, Some d] \<Rightarrow>
          if a \<le> 255 \<and> b \<le> 255 \<and> c \<le> 255 \<and> d \<le> 255
          then Some (((a * 256 + b) * 256 + c) * 256 + d) else None
      | _ \<Rightarrow> None)"

definition parse_cidr :: "string \<Rightarrow> (nat \<times> nat) option" where
  "parse_cidr s =
     (case split_on CHR ''/'' s of
        [ip, len] \<Rightarrow>
          (case (parse_ipv4 ip, decimal len) of
             (Some a, Some l) \<Rightarrow> if l \<le> 32 then Some (a, l) else None
           | _ \<Rightarrow> None)
      | _ \<Rightarrow> None)"

definition cidr_first :: "nat \<times> nat \<Rightarrow> nat" where
  "cidr_first c = (case c of (a, l) \<Rightarrow> (a div 2 ^ (32 - l)) * 2 ^ (32 - l))"

definition cidr_last :: "nat \<times> nat \<Rightarrow> nat" where
  "cidr_last c = (case c of (a, l) \<Rightarrow> cidr_first (a, l) + 2 ^ (32 - l) - 1)"

definition cidr_addresses :: "nat \<times> nat \<Rightarrow> nat set" where
  "cidr_addresses c = {cidr_first c .. cidr_last c}"

definition cidr_of :: "resource \<Rightarrow> (nat \<times> nat) option" where
  "cidr_of r = (case prop_of r ''cidr_block'' of Some (Str s) \<Rightarrow> parse_cidr s | _ \<Rightarrow> None)"

subsection \<open>Proof devices\<close>

text \<open>A list of requests issued in order, up to the first one the engine refuses.\<close>

fun issue_all :: "engine \<Rightarrow> request list \<Rightarrow> unit prog" where
  "issue_all eng [] log = (Inr (), log)"
| "issue_all eng (r # rs) log =
     (case eng log r of
        Some e \<Rightarrow> (Inl e, log @ [r])
      | None \<Rightarrow> issue_all eng rs (log @ [r]))"

text \<open>
  The requests of the statements of \<open>main\<close> in textual order, each handle variable
  replaced by the handle its constructor returns: a list of constants, in which nothing
  depends on the engine. Lemmas \<open>main_script\<close> and \<open>declarations_script\<close> below show
  that this is what \<open>main\<close> issues.
\<close>

definition script :: "(input \<Rightarrow> string) \<Rightarrow> request list" where
  "script json_dumps =
   [Register \<lparr>rtype_of = Ec2_Vpc, name = ''myapp-vpc'', props =
      [(''cidr_block'', Str ''10.0.0.0/16''),
       (''enable_dns_hostnames'', Bool True),
       (''enable_dns_support'', Bool True)]\<rparr>,
    Register \<lparr>rtype_of = Ec2_Subnet, name = ''public-subnet-1'', props =
      [(''vpc_id'', Out (Attr (Handle Ec2_Vpc ''myapp-vpc'') ''id'')),
       (''cidr_block'', Str ''10.0.1.0/24''),
       (''availability_zone'', Str ''us-east-1a''),
       (''map_public_ip_on_launch'', Bool True)]\<rparr>,
    Register \<lparr>rtype_of = Ec2_Subnet, name = ''public-subnet-2'', props =
      [(''vpc_id'', Out (Attr (Handle Ec2_Vpc ''myapp-vpc'') ''id'')),
       (''cidr_block'', Str ''10.0.2.0/24''),
       (''availability_zone'', Str ''us-east-1b''),
       (''map_public_ip_on_launch'', Bool True)]\<rparr>,
    Register \<lparr>rtype_of = Ec2_InternetGateway, name = ''myapp-igw'', props =
      [(''vpc_id'', Out (Attr (Handle Ec2_Vpc ''myapp-vpc'') ''id''))]\<rparr>,
    Register \<lparr>rtype_of = Ec2_RouteTable, name = ''myapp-rt'', props =
      [(''vpc_id'', Out (Attr (Handle Ec2_Vpc ''myapp-vpc'') ''id'')),
       (''routes'', Arr
          [Obj [(''cidr_block'', Str ''0.0.0.0/0''),
                (''gateway_id'', Out (Attr (Handle Ec2_InternetGateway ''myapp-igw'') ''id''))]])]\<rparr>,
    Register \<lparr>rtype_of = Ec2_RouteTableAssociation, name = ''rta-1'', props =
      [(''subnet_id'', Out (Attr (Handle Ec2_Subnet ''public-subnet-1'') ''id'')),
       (''route_table_id'', Out (Attr (Handle Ec2_RouteTable ''myapp-rt'') ''id''))]\<rparr>,
    Register \<lparr>rtype_of = Ec2_RouteTableAssociation, name = ''rta-2'', props =
      [(''subnet_id'', Out (Attr (Handle Ec2_Subnet ''public-subnet-2'') ''id'')),
       (''route_table_id'', Out (Attr (Handle Ec2_RouteTable ''myapp-rt'') ''id''))]\<rparr>,
    Register \<lparr>rtype_of = Ec2_SecurityGroup, name = ''myapp-sg'', props =
      [(''description'', Str ''Allow inbound traffic for the Rails app''),
       (''vpc_id'', Out (Attr (Handle Ec2_Vpc ''myapp-vpc'') ''id'')),
       (''ingress'', Arr
          [Obj [(''protocol'', Str ''tcp''),
                (''from_port'', Num 80),
                (''to_port'', Num 80),
                (''cidr_blocks'', Arr [Str ''0.0.0.0/0''])]]),
       (''egress'', Arr
          [Obj [(''protocol'', Str ''-1''),
                (''from_port'', Num 0),
                (''to_port'', Num 0),
                (''cidr_blocks'', Arr [Str ''0.0.0.0/0''])]])]\<rparr>,
    Register \<lparr>rtype_of = Ecr_Repository, name = ''myapp-repo'', props =
      [(''name'', Str ''myapp-repo'')]\<rparr>,
    Register \<lparr>rtype_of = Ecs_Cluster, name = ''myapp-cluster'', props =
      [(''name'', Str ''myapp-cluster'')]\<rparr>,
    Register \<lparr>rtype_of = Iam_Role, name = ''myapp-task-exec-role'', props =
      [(''assume_role_policy'', Str (json_dumps (Obj
          [(''Version'', Str ''2008-10-17''),
           (''Statement'', Arr
              [Obj [(''Sid'', Str ''''),
                    (''Effect'', Str ''Allow''),
                    (''Principal'', Obj [(''Service'', Str ''ecs-tasks.amazonaws.com'')]),
                    (''Action'', Str ''sts:AssumeRole'')]])])))]\<rparr>,
    Register \<lparr>rtype_of = Ecs_TaskDefinition, name = ''myapp-task'', props =
      [(''family'', Str ''myapp-task-family''),
       (''cpu'', Str ''256''),
       (''memory'', Str ''512''),
       (''network_mode'', Str ''awsvpc''),
       (''requires_compatibilities'', Arr [Str ''FARGATE'']),
       (''execution_role_arn'', Out (Attr (Handle Iam_Role ''myapp-task-exec-role'') ''arn'')),
       (''container_definitions'', Out (Json_dumps (Arr
          [Obj [(''name'', Str ''myapp''),
                (''image'', Out (Apply (\<lambda>url. url @ '':latest'')
                                  (Attr (Handle Ecr_Repository ''myapp-repo'') ''repository_url''))),
                (''portMappings'', Arr
                   [Obj [(''containerPort'', Num 3000),
                         (''hostPort'', Num 3000),
                         (''protocol'', Str ''tcp'')]]),
                (''secrets'', Arr
                   [Obj [(''name'', Str ''DATABASE_URL''),
                         (''valueFrom'', Str
                            ''arn:aws:ssm:us-east-1:774287600271:parameter/myapp/database_url'')]])]])))]\<rparr>,
    Register \<lparr>rtype_of = Lb_LoadBalancer, name = ''myapp-alb'', props =
      [(''load_balancer_type'', Str ''application''),
       (''security_groups'', Arr [Out (Attr (Handle Ec2_SecurityGroup ''myapp-sg'') ''id'')]),
       (''subnets'', Arr [Out (Attr (Handle Ec2_Subnet ''public-subnet-1'') ''id''),
                          Out (Attr (Handle Ec2_Subnet ''public-subnet-2'') ''id'')])]\<rparr>,
    Register \<lparr>rtype_of = Lb_TargetGroup, name = ''myapp-tg'', props =
      [(''port'', Num 80),
       (''protocol'', Str ''HTTP''),
       (''target_type'', Str ''ip''),
       (''vpc_id'', Out (Attr (Handle Ec2_Vpc ''myapp-vpc'') ''id''))]\<rparr>,
    Register \<lparr>rtype_of = Lb_Listener, name = ''myapp-listener'', props =
      [(''load_balancer_arn'', Out (Attr (Handle Lb_LoadBalancer ''myapp-alb'') ''arn'')),
       (''port'', Num 80),
       (''default_actions'', Arr
          [Obj [(''type'', Str ''forward''),
                (''target_group_arn'', Out (Attr (Handle Lb_TargetGroup ''myapp-tg'') ''arn''))]])]\<rparr>,
    Register \<lparr>rtype_of = Ecs_Service, name = ''myapp-service'', props =
      [(''cluster'', Out (Attr (Handle Ecs_Cluster ''myapp-cluster'') ''arn'')),
       (''desired_count'', Num 1),
       (''task_definition'', Out (Attr (Handle Ecs_TaskDefinition ''myapp-task'') ''arn'')),
       (''network_configuration'', Obj
          [(''assign_public_ip'', Bool True),
           (''subnets'', Arr [Out (Attr (Handle Ec2_Subnet ''public-subnet-1'') ''id''),
                              Out (Attr (Handle Ec2_Subnet ''public-subnet-2'') ''id'')]),
           (''security_groups'', Arr [Out (Attr (Handle Ec2_SecurityGroup ''myapp-sg'') ''id'')])]),
       (''load_balancers'', Arr
          [Obj [(''target_group_arn'', Out (Attr (Handle Lb_TargetGroup ''myapp-tg'') ''arn'')),
                (''container_name'', Str ''myapp''),
                (''container_port'', Num 3000)]]),
       (''capacity_provider_strategies'', Arr
          [Obj [(''capacity_provider'', Str ''FARGATE_SPOT''),
                (''weight'', Num 1)]])]\<rparr>,
    Export ''ecr_repo_url'' (Out (Attr (Handle Ecr_Repository ''myapp-repo'') ''repository_url'')),
    Export ''alb_dns_name'' (Out (Attr (Handle Lb_LoadBalancer ''myapp-alb'') ''dns_name''))]"

section \<open>The script issues its statements in sequence\<close>

lemma step_register:
  "f (Handle t n) = issue_all eng rs \<Longrightarrow>
   and_then (register eng t n ps) f =
     issue_all eng (Register \<lparr>rtype_of = t, name = n, props = ps\<rparr> # rs)"
  by (rule ext) (simp add: and_then_def register_def Let_def split: option.splits)

lemma step_export:
  "f () = issue_all eng rs \<Longrightarrow>
   and_then (export eng k v) f = issue_all eng (Export k v # rs)"
  by (rule ext) (simp add: and_then_def export_def Let_def split: option.splits)

lemma last_export: "export eng k v = issue_all eng [Export k v]"
  by (rule ext) (simp add: export_def Let_def split: option.splits)

lemma main_script: "main d eng = issue_all eng (script d)"
  unfolding main_def script_def
  by (intro step_register step_export last_export)

lemma issue_all_accept: "issue_all accept_all rs log = (Inr (), log @ rs)"
  by (induction rs arbitrary: log) (simp_all add: accept_all_def)

lemma declarations_script: "declarations d = script d"
  by (simp add: declarations_def run_def main_script issue_all_accept)

lemma issue_all_prefix:
  "\<exists>k\<le>length rs. snd (issue_all eng rs log) = log @ take k rs"
proof (induction rs arbitrary: log)
  case Nil
  then show ?case by simp
next
  case (Cons r rs)
  show ?case
  proof (cases "eng log r")
    case None
    from Cons.IH [of "log @ [r]"] obtain k where
      "k \<le> length rs" "snd (issue_all eng rs (log @ [r])) = (log @ [r]) @ take k rs"
      by blast
    with None have "Suc k \<le> length (r # rs) \<and>
        snd (issue_all eng (r # rs) log) = log @ take (Suc k) (r # rs)"
      by simp
    then show ?thesis by blast
  next
    case (Some e)
    then have "Suc 0 \<le> length (r # rs) \<and>
        snd (issue_all eng (r # rs) log) = log @ take (Suc 0) (r # rs)"
      by simp
    then show ?thesis by blast
  qed
qed

lemma issue_all_ok:
  "fst (issue_all eng rs log) = Inr () \<Longrightarrow> snd (issue_all eng rs log) = log @ rs"
  by (induction rs arbitrary: log) (auto split: option.splits)

lemma issue_all_raise:
  "j < length rs \<Longrightarrow> \<forall>i<j. eng (log @ take i rs) (rs ! i) = None \<Longrightarrow>
   eng (log @ take j rs) (rs ! j) = Some e \<Longrightarrow>
   issue_all eng rs log = (Inl e, log @ take (Suc j) rs)"
proof (induction rs arbitrary: log j)
  case Nil
  then show ?case by simp
next
  case (Cons r rs)
  show ?case
  proof (cases j)
    case 0
    with Cons.prems show ?thesis by simp
  next
    case (Suc j')
    from Cons.prems(2) Suc have r: "eng log r = None"
      by (auto dest: spec [of _ 0])
    have a: "j' < length rs" using Cons.prems(1) Suc by simp
    have b: "\<forall>i<j'. eng ((log @ [r]) @ take i rs) (rs ! i) = None"
    proof (intro allI impI)
      fix i assume "i < j'"
      then have "Suc i < j" using Suc by simp
      with Cons.prems(2) have "eng (log @ take (Suc i) (r # rs)) ((r # rs) ! Suc i) = None"
        by blast
      then show "eng ((log @ [r]) @ take i rs) (rs ! i) = None" by simp
    qed
    have c: "eng ((log @ [r]) @ take j' rs) (rs ! j') = Some e"
      using Cons.prems(3) Suc by simp
    have "issue_all eng rs (log @ [r]) = (Inl e, (log @ [r]) @ take (Suc j') rs)"
      by (rule Cons.IH [OF a b c])
    with r Suc show ?thesis by simp
  qed
qed

lemma issue_all_error:
  "fst (issue_all eng rs log) = Inl e \<Longrightarrow>
   \<exists>j<length rs. (\<forall>i<j. eng (log @ take i rs) (rs ! i) = None) \<and>
      eng (log @ take j rs) (rs ! j) = Some e \<and>
      snd (issue_all eng rs log) = log @ take (Suc j) rs"
proof (induction rs arbitrary: log)
  case Nil
  then show ?case by simp
next
  case (Cons r rs)
  show ?case
  proof (cases "eng log r")
    case (Some e')
    with Cons.prems have "e' = e" by simp
    with Some have "0 < length (r # rs) \<and> (\<forall>i<0. eng (log @ take i (r # rs)) ((r # rs) ! i) = None) \<and>
      eng (log @ take 0 (r # rs)) ((r # rs) ! 0) = Some e \<and>
      snd (issue_all eng (r # rs) log) = log @ take (Suc 0) (r # rs)"
      by simp
    then show ?thesis by blast
  next
    case None
    with Cons.prems have "fst (issue_all eng rs (log @ [r])) = Inl e" by simp
    from Cons.IH [OF this] obtain j where j: "j < length rs"
      "\<forall>i<j. eng ((log @ [r]) @ take i rs) (rs ! i) = None"
      "eng ((log @ [r]) @ take j rs) (rs ! j) = Some e"
      "snd (issue_all eng rs (log @ [r])) = (log @ [r]) @ take (Suc j) rs"
      by blast
    have "\<forall>i<Suc j. eng (log @ take i (r # rs)) ((r # rs) ! i) = None"
    proof (intro allI impI)
      fix i assume "i < Suc j"
      then show "eng (log @ take i (r # rs)) ((r # rs) ! i) = None"
        using None j(2) by (cases i) auto
    qed
    with j None have "Suc j < length (r # rs) \<and>
      (\<forall>i<Suc j. eng (log @ take i (r # rs)) ((r # rs) ! i) = None) \<and>
      eng (log @ take (Suc j) (r # rs)) ((r # rs) ! Suc j) = Some e \<and>
      snd (issue_all eng (r # rs) log) = log @ take (Suc (Suc j)) (r # rs)"
      by simp
    then show ?thesis by blast
  qed
qed

section \<open>Every run follows the declarations\<close>

lemma run_issue: "run d eng = issue_all eng (declarations d) []"
  by (simp add: run_def main_script declarations_script)

lemma length_declarations: "length (declarations d) = 18"
  by (simp add: declarations_script script_def)

lemma declarations_labels:
  "map label_of (declarations d) =
     [''myapp-vpc'', ''public-subnet-1'', ''public-subnet-2'', ''myapp-igw'', ''myapp-rt'',
      ''rta-1'', ''rta-2'', ''myapp-sg'', ''myapp-repo'', ''myapp-cluster'',
      ''myapp-task-exec-role'', ''myapp-task'', ''myapp-alb'', ''myapp-tg'',
      ''myapp-listener'', ''myapp-service'', ''ecr_repo_url'', ''alb_dns_name'']"
  by (simp add: declarations_script script_def)

lemma distinct_labels: "distinct (map label_of (declarations d))"
  by (simp add: declarations_labels)

lemma run_prefix: "\<exists>k\<le>length (declarations d). snd (run d eng) = take k (declarations d)"
  using issue_all_prefix [of "declarations d" eng "[]"] by (simp add: run_issue)

lemma run_ok: "fst (run d eng) = Inr () \<Longrightarrow> snd (run d eng) = declarations d"
  using issue_all_ok [of eng "declarations d" "[]"] by (simp add: run_issue)

lemma run_distinct: "distinct (map label_of (snd (run d eng)))"
proof -
  obtain k where "snd (run d eng) = take k (declarations d)"
    using run_prefix by blast
  then have "map label_of (snd (run d eng)) = take k (map label_of (declarations d))"
    by (simp add: take_map)
  then show ?thesis
    using distinct_labels [of d] by (simp add: distinct_take)
qed

lemma run_accept_all: "run d accept_all = (Inr (), declarations d)"
  by (simp add: run_issue issue_all_accept)

lemma resources_append: "resources (xs @ ys) = resources xs @ resources ys"
  by (induction xs rule: resources.induct) simp_all

lemma exports_append: "exports (xs @ ys) = exports xs @ exports ys"
  by (induction xs rule: exports.induct) simp_all

lemma run_prefix_declarations: "prefix (snd (run d eng)) (declarations d)"
proof -
  obtain k where "snd (run d eng) = take k (declarations d)"
    using run_prefix by blast
  then show ?thesis by (simp add: take_is_prefix)
qed

lemma prefix_resources: "prefix xs ys \<Longrightarrow> prefix (resources xs) (resources ys)"
  by (auto simp: prefix_def resources_append)

lemma prefix_exports: "prefix xs ys \<Longrightarrow> prefix (exports xs) (exports ys)"
  by (auto simp: prefix_def exports_append)

section \<open>The declared resources\<close>

lemma declared_kinds:
  "map (\<lambda>r. (rtype_of r, name r, spec_lists (rtype_of r))) (resources (declarations d)) =
     [(Ec2_Vpc, ''myapp-vpc'', Some The_VPC),
      (Ec2_Subnet, ''public-subnet-1'', Some Subnets),
      (Ec2_Subnet, ''public-subnet-2'', Some Subnets),
      (Ec2_InternetGateway, ''myapp-igw'', Some Routing),
      (Ec2_RouteTable, ''myapp-rt'', Some Routing),
      (Ec2_RouteTableAssociation, ''rta-1'', Some Routing),
      (Ec2_RouteTableAssociation, ''rta-2'', Some Routing),
      (Ec2_SecurityGroup, ''myapp-sg'', Some The_security_group),
      (Ecr_Repository, ''myapp-repo'', Some The_ECR_repository),
      (Ecs_Cluster, ''myapp-cluster'', Some The_ECS_cluster),
      (Iam_Role, ''myapp-task-exec-role'', None),
      (Ecs_TaskDefinition, ''myapp-task'', Some The_ECS_task),
      (Lb_LoadBalancer, ''myapp-alb'', Some The_load_balancer),
      (Lb_TargetGroup, ''myapp-tg'', Some The_load_balancer),
      (Lb_Listener, ''myapp-listener'', Some The_load_balancer),
      (Ecs_Service, ''myapp-service'', Some The_ECS_service)]"
  by (simp add: declarations_script script_def)

text \<open>
  Claim C1, as stated, fails. It says that the script declares the resources the spec
  lists and no resource outside that set. The eleventh statement of the script declares an
  IAM role (\<^verbatim>\<open>iam.Role("myapp-task-exec-role", ...)\<close>, the execution role of the task
  definition), and the spec's list has no item for it.
\<close>

theorem role_outside_spec_list:
  "Iam_Role \<in> rtype_of ` set (resources (snd (run (\<lambda>v. []) accept_all))) \<and>
   spec_lists Iam_Role = None"
  by (simp add: run_accept_all declarations_script script_def)

text \<open>
  Claim C1, amended. For every serialiser and every behaviour of the engine, the resources
  a run declares are an initial part of one fixed list of sixteen: the VPC, the two subnets,
  the internet gateway, the route table and its two associations (routing), the security
  group, the ECR repository, the ECS cluster, an IAM role, the task definition, the load
  balancer with its target group and listener, and the ECS service. A run that raises no
  exception declares exactly these sixteen, in this order. Fifteen of them fall under an
  item of the spec's list; the IAM role falls under none.
\<close>

theorem declared_resources:
  "prefix (map (\<lambda>r. (rtype_of r, name r, spec_lists (rtype_of r))) (resources (snd (run d eng))))
     [(Ec2_Vpc, ''myapp-vpc'', Some The_VPC),
      (Ec2_Subnet, ''public-subnet-1'', Some Subnets),
      (Ec2_Subnet, ''public-subnet-2'', Some Subnets),
      (Ec2_InternetGateway, ''myapp-igw'', Some Routing),
      (Ec2_RouteTable, ''myapp-rt'', Some Routing),
      (Ec2_RouteTableAssociation, ''rta-1'', Some Routing),
      (Ec2_RouteTableAssociation, ''rta-2'', Some Routing),
      (Ec2_SecurityGroup, ''myapp-sg'', Some The_security_group),
      (Ecr_Repository, ''myapp-repo'', Some The_ECR_repository),
      (Ecs_Cluster, ''myapp-cluster'', Some The_ECS_cluster),
      (Iam_Role, ''myapp-task-exec-role'', None),
      (Ecs_TaskDefinition, ''myapp-task'', Some The_ECS_task),
      (Lb_LoadBalancer, ''myapp-alb'', Some The_load_balancer),
      (Lb_TargetGroup, ''myapp-tg'', Some The_load_balancer),
      (Lb_Listener, ''myapp-listener'', Some The_load_balancer),
      (Ecs_Service, ''myapp-service'', Some The_ECS_service)] \<and>
   (fst (run d eng) = Inr () \<longrightarrow>
    map (\<lambda>r. (rtype_of r, name r, spec_lists (rtype_of r))) (resources (snd (run d eng))) =
     [(Ec2_Vpc, ''myapp-vpc'', Some The_VPC),
      (Ec2_Subnet, ''public-subnet-1'', Some Subnets),
      (Ec2_Subnet, ''public-subnet-2'', Some Subnets),
      (Ec2_InternetGateway, ''myapp-igw'', Some Routing),
      (Ec2_RouteTable, ''myapp-rt'', Some Routing),
      (Ec2_RouteTableAssociation, ''rta-1'', Some Routing),
      (Ec2_RouteTableAssociation, ''rta-2'', Some Routing),
      (Ec2_SecurityGroup, ''myapp-sg'', Some The_security_group),
      (Ecr_Repository, ''myapp-repo'', Some The_ECR_repository),
      (Ecs_Cluster, ''myapp-cluster'', Some The_ECS_cluster),
      (Iam_Role, ''myapp-task-exec-role'', None),
      (Ecs_TaskDefinition, ''myapp-task'', Some The_ECS_task),
      (Lb_LoadBalancer, ''myapp-alb'', Some The_load_balancer),
      (Lb_TargetGroup, ''myapp-tg'', Some The_load_balancer),
      (Lb_Listener, ''myapp-listener'', Some The_load_balancer),
      (Ecs_Service, ''myapp-service'', Some The_ECS_service)])"
proof -
  have "prefix (resources (snd (run d eng))) (resources (declarations d))"
    by (rule prefix_resources) (rule run_prefix_declarations)
  then have "prefix
      (map (\<lambda>r. (rtype_of r, name r, spec_lists (rtype_of r))) (resources (snd (run d eng))))
      (map (\<lambda>r. (rtype_of r, name r, spec_lists (rtype_of r))) (resources (declarations d)))"
    by (rule map_mono_prefix)
  then show ?thesis
    using run_ok [of d eng] by (auto simp only: declared_kinds)
qed

theorem declared_resources_witness:
  "fst (run (\<lambda>v. []) accept_all) = Inr () \<and>
   map (\<lambda>r. (rtype_of r, name r, spec_lists (rtype_of r)))
     (resources (snd (run (\<lambda>v. []) accept_all))) =
     [(Ec2_Vpc, ''myapp-vpc'', Some The_VPC),
      (Ec2_Subnet, ''public-subnet-1'', Some Subnets),
      (Ec2_Subnet, ''public-subnet-2'', Some Subnets),
      (Ec2_InternetGateway, ''myapp-igw'', Some Routing),
      (Ec2_RouteTable, ''myapp-rt'', Some Routing),
      (Ec2_RouteTableAssociation, ''rta-1'', Some Routing),
      (Ec2_RouteTableAssociation, ''rta-2'', Some Routing),
      (Ec2_SecurityGroup, ''myapp-sg'', Some The_security_group),
      (Ecr_Repository, ''myapp-repo'', Some The_ECR_repository),
      (Ecs_Cluster, ''myapp-cluster'', Some The_ECS_cluster),
      (Iam_Role, ''myapp-task-exec-role'', None),
      (Ecs_TaskDefinition, ''myapp-task'', Some The_ECS_task),
      (Lb_LoadBalancer, ''myapp-alb'', Some The_load_balancer),
      (Lb_TargetGroup, ''myapp-tg'', Some The_load_balancer),
      (Lb_Listener, ''myapp-listener'', Some The_load_balancer),
      (Ecs_Service, ''myapp-service'', Some The_ECS_service)]"
  using declared_resources [of "\<lambda>v. []" accept_all] by (simp add: run_accept_all)

section \<open>The exports\<close>

lemma declarations_exports:
  "exports (declarations d) =
     [(''ecr_repo_url'', Out (Attr (Handle Ecr_Repository ''myapp-repo'') ''repository_url'')),
      (''alb_dns_name'', Out (Attr (Handle Lb_LoadBalancer ''myapp-alb'') ''dns_name''))]"
  by (simp add: declarations_script script_def)

lemma declarations_repository:
  "of_type Ecr_Repository (declarations d) =
     [\<lparr>rtype_of = Ecr_Repository, name = ''myapp-repo'',
       props = [(''name'', Str ''myapp-repo'')]\<rparr>]"
  by (simp add: declarations_script script_def of_type_def)

lemma declarations_load_balancer:
  "of_type Lb_LoadBalancer (declarations d) =
     [\<lparr>rtype_of = Lb_LoadBalancer, name = ''myapp-alb'',
       props =
         [(''load_balancer_type'', Str ''application''),
          (''security_groups'', Arr [Out (Attr (Handle Ec2_SecurityGroup ''myapp-sg'') ''id'')]),
          (''subnets'', Arr [Out (Attr (Handle Ec2_Subnet ''public-subnet-1'') ''id''),
                             Out (Attr (Handle Ec2_Subnet ''public-subnet-2'') ''id'')])]\<rparr>]"
  by (simp add: declarations_script script_def of_type_def)

text \<open>
  Claim C2. A run that raises no exception exports exactly two values: under the key
  \<^verbatim>\<open>ecr_repo_url\<close> the \<^verbatim>\<open>repository_url\<close> attribute of the one ECR repository it declared,
  and under the key \<^verbatim>\<open>alb_dns_name\<close> the \<^verbatim>\<open>dns_name\<close> attribute of the one load balancer
  it declared; whatever the attributes resolve to, the exported values are those resolved
  attributes. No run exports under any other key.
\<close>

theorem exports_exactly_two:
  "prefix (map fst (exports (snd (run d eng)))) [''ecr_repo_url'', ''alb_dns_name''] \<and>
   (fst (run d eng) = Inr () \<longrightarrow>
    (\<exists>repo alb.
       of_type Ecr_Repository (snd (run d eng)) = [repo] \<and>
       of_type Lb_LoadBalancer (snd (run d eng)) = [alb] \<and>
       exports (snd (run d eng)) =
         [(''ecr_repo_url'', Out (Attr (handle_of repo) ''repository_url'')),
          (''alb_dns_name'', Out (Attr (handle_of alb) ''dns_name''))] \<and>
       (\<forall>\<rho>. map (\<lambda>kv. (fst kv, resolve \<rho> d (snd kv))) (exports (snd (run d eng))) =
         [(''ecr_repo_url'', Str (\<rho> (handle_of repo) ''repository_url'')),
          (''alb_dns_name'', Str (\<rho> (handle_of alb) ''dns_name''))])))"
proof (intro conjI impI)
  have "prefix (exports (snd (run d eng))) (exports (declarations d))"
    by (rule prefix_exports) (rule run_prefix_declarations)
  then have "prefix (map fst (exports (snd (run d eng)))) (map fst (exports (declarations d)))"
    by (rule map_mono_prefix)
  then show "prefix (map fst (exports (snd (run d eng)))) [''ecr_repo_url'', ''alb_dns_name'']"
    by (simp add: declarations_exports)
next
  assume "fst (run d eng) = Inr ()"
  then have log: "snd (run d eng) = declarations d" by (rule run_ok)
  show "\<exists>repo alb.
       of_type Ecr_Repository (snd (run d eng)) = [repo] \<and>
       of_type Lb_LoadBalancer (snd (run d eng)) = [alb] \<and>
       exports (snd (run d eng)) =
         [(''ecr_repo_url'', Out (Attr (handle_of repo) ''repository_url'')),
          (''alb_dns_name'', Out (Attr (handle_of alb) ''dns_name''))] \<and>
       (\<forall>\<rho>. map (\<lambda>kv. (fst kv, resolve \<rho> d (snd kv))) (exports (snd (run d eng))) =
         [(''ecr_repo_url'', Str (\<rho> (handle_of repo) ''repository_url'')),
          (''alb_dns_name'', Str (\<rho> (handle_of alb) ''dns_name''))])"
    unfolding log declarations_exports declarations_repository declarations_load_balancer
    by (simp add: handle_of_def)
qed

theorem exports_exactly_two_witness:
  "fst (run (\<lambda>v. []) accept_all) = Inr () \<and>
   map fst (exports (snd (run (\<lambda>v. []) accept_all))) = [''ecr_repo_url'', ''alb_dns_name'']"
proof -
  have ok: "fst (run (\<lambda>v. []) accept_all) = Inr ()"
    by (simp add: run_accept_all)
  with exports_exactly_two [of "\<lambda>v. []" accept_all]
  obtain repo alb where "exports (snd (run (\<lambda>v. []) accept_all)) =
         [(''ecr_repo_url'', Out (Attr (handle_of repo) ''repository_url'')),
          (''alb_dns_name'', Out (Attr (handle_of alb) ''dns_name''))]"
    by blast
  with ok show ?thesis by simp
qed

section \<open>Control flow and errors\<close>

text \<open>
  Claim C3. Control flow is one linear sequence. Whatever the engine does, the requests a
  run issues are an initial part of the script's eighteen statements in their textual
  order, and no statement is issued twice; when nothing raises, every statement is issued,
  so each is issued exactly once.
\<close>

theorem linear_sequence:
  "(\<exists>k\<le>length (declarations d). snd (run d eng) = take k (declarations d)) \<and>
   (fst (run d eng) = Inr () \<longrightarrow> snd (run d eng) = declarations d) \<and>
   distinct (map label_of (snd (run d eng))) \<and>
   map label_of (declarations d) =
     [''myapp-vpc'', ''public-subnet-1'', ''public-subnet-2'', ''myapp-igw'', ''myapp-rt'',
      ''rta-1'', ''rta-2'', ''myapp-sg'', ''myapp-repo'', ''myapp-cluster'',
      ''myapp-task-exec-role'', ''myapp-task'', ''myapp-alb'', ''myapp-tg'',
      ''myapp-listener'', ''myapp-service'', ''ecr_repo_url'', ''alb_dns_name'']"
  using run_prefix [of d eng] run_ok [of d eng] run_distinct [of d eng] declarations_labels [of d]
  by blast

theorem linear_sequence_witness:
  "fst (run (\<lambda>v. []) accept_all) = Inr () \<and>
   map label_of (snd (run (\<lambda>v. []) accept_all)) =
     [''myapp-vpc'', ''public-subnet-1'', ''public-subnet-2'', ''myapp-igw'', ''myapp-rt'',
      ''rta-1'', ''rta-2'', ''myapp-sg'', ''myapp-repo'', ''myapp-cluster'',
      ''myapp-task-exec-role'', ''myapp-task'', ''myapp-alb'', ''myapp-tg'',
      ''myapp-listener'', ''myapp-service'', ''ecr_repo_url'', ''alb_dns_name'']"
proof -
  have ok: "fst (run (\<lambda>v. []) accept_all) = Inr ()"
    by (simp add: run_accept_all)
  from linear_sequence [of "\<lambda>v. []" accept_all] ok
  have "snd (run (\<lambda>v. []) accept_all) = declarations (\<lambda>v. [])"
    and "map label_of (declarations (\<lambda>v. [])) =
     [''myapp-vpc'', ''public-subnet-1'', ''public-subnet-2'', ''myapp-igw'', ''myapp-rt'',
      ''rta-1'', ''rta-2'', ''myapp-sg'', ''myapp-repo'', ''myapp-cluster'',
      ''myapp-task-exec-role'', ''myapp-task'', ''myapp-alb'', ''myapp-tg'',
      ''myapp-listener'', ''myapp-service'', ''ecr_repo_url'', ''alb_dns_name'']"
    by blast+
  with ok show ?thesis by simp
qed

text \<open>
  Claim C4. The script handles no error. If the engine raises \<open>e\<close> at the \<open>j\<close>-th
  statement (and at none before), the run ends with \<open>e\<close> and has issued the statements up
  to that one and no later one. Conversely, a run that ends with an exception \<open>e\<close> got it
  from the engine at the last statement it issued: the script raises nothing of its own
  and retries nothing.
\<close>

theorem errors_propagate:
  "(\<forall>j e. j < length (declarations d) \<and>
        (\<forall>i<j. eng (take i (declarations d)) (declarations d ! i) = None) \<and>
        eng (take j (declarations d)) (declarations d ! j) = Some e \<longrightarrow>
        run d eng = (Inl e, take (Suc j) (declarations d))) \<and>
   (\<forall>e. fst (run d eng) = Inl e \<longrightarrow>
        (\<exists>j<length (declarations d).
           eng (take j (declarations d)) (declarations d ! j) = Some e \<and>
           snd (run d eng) = take (Suc j) (declarations d)))"
proof (intro conjI allI impI)
  fix j e
  assume "j < length (declarations d) \<and>
        (\<forall>i<j. eng (take i (declarations d)) (declarations d ! i) = None) \<and>
        eng (take j (declarations d)) (declarations d ! j) = Some e"
  then show "run d eng = (Inl e, take (Suc j) (declarations d))"
    using issue_all_raise [of j "declarations d" eng "[]" e] by (simp add: run_issue)
next
  fix e
  assume "fst (run d eng) = Inl e"
  then have "fst (issue_all eng (declarations d) []) = Inl e"
    by (simp add: run_issue)
  from issue_all_error [OF this]
  show "\<exists>j<length (declarations d).
           eng (take j (declarations d)) (declarations d ! j) = Some e \<and>
           snd (run d eng) = take (Suc j) (declarations d)"
    by (auto simp: run_issue)
qed

theorem errors_propagate_witness:
  "run (\<lambda>v. []) (\<lambda>log r. if length log = 3 then Some (Error ''quota'') else None) =
     (Inl (Error ''quota''), take 4 (declarations (\<lambda>v. []))) \<and>
   map label_of (take 4 (declarations (\<lambda>v. []))) =
     [''myapp-vpc'', ''public-subnet-1'', ''public-subnet-2'', ''myapp-igw'']"
proof -
  let ?d = "\<lambda>v::input. [] :: string"
  let ?eng = "\<lambda>(log::request list) (r::request). if length log = 3 then Some (Error ''quota'') else None"
  have len: "length (declarations ?d) = 18" by (rule length_declarations)
  have "(3::nat) < length (declarations ?d) \<and>
        (\<forall>i<3. ?eng (take i (declarations ?d)) (declarations ?d ! i) = None) \<and>
        ?eng (take 3 (declarations ?d)) (declarations ?d ! 3) = Some (Error ''quota'')"
    by (simp add: len)
  with errors_propagate [of ?d ?eng]
  have "run ?d ?eng = (Inl (Error ''quota''), take (Suc 3) (declarations ?d))"
    by blast
  moreover have "map label_of (take 4 (declarations ?d)) =
     [''myapp-vpc'', ''public-subnet-1'', ''public-subnet-2'', ''myapp-igw'']"
    by (simp add: take_map [symmetric] declarations_labels)
  ultimately show ?thesis by simp
qed

section \<open>Logic and determinism\<close>



text \<open>
  Claim C6. The script is deterministic configuration. \<open>main\<close> takes nothing but the
  library's serialiser and the engine. Two runs issue the same requests as far as both get,
  and the same requests when both raise nothing; and when the repository URL and the
  load balancer's DNS name resolve to the same strings in both, the exported values are
  the same.
\<close>

theorem deterministic_configuration:
  "(prefix (snd (run d eng)) (snd (run d eng')) \<or> prefix (snd (run d eng')) (snd (run d eng))) \<and>
   (fst (run d eng) = Inr () \<and> fst (run d eng') = Inr () \<longrightarrow>
      snd (run d eng) = snd (run d eng')) \<and>
   (fst (run d eng) = Inr () \<and> fst (run d eng') = Inr () \<and>
    \<rho> (Handle Ecr_Repository ''myapp-repo'') ''repository_url'' =
      \<rho>' (Handle Ecr_Repository ''myapp-repo'') ''repository_url'' \<and>
    \<rho> (Handle Lb_LoadBalancer ''myapp-alb'') ''dns_name'' =
      \<rho>' (Handle Lb_LoadBalancer ''myapp-alb'') ''dns_name'' \<longrightarrow>
      map (\<lambda>kv. (fst kv, resolve \<rho> d (snd kv))) (exports (snd (run d eng))) =
      map (\<lambda>kv. (fst kv, resolve \<rho>' d (snd kv))) (exports (snd (run d eng'))))"
proof (intro conjI impI)
  show "prefix (snd (run d eng)) (snd (run d eng')) \<or> prefix (snd (run d eng')) (snd (run d eng))"
    using run_prefix_declarations [of d eng] run_prefix_declarations [of d eng']
    by (rule prefix_same_cases)
next
  assume "fst (run d eng) = Inr () \<and> fst (run d eng') = Inr ()"
  then show "snd (run d eng) = snd (run d eng')"
    by (simp add: run_ok)
next
  assume a: "fst (run d eng) = Inr () \<and> fst (run d eng') = Inr () \<and>
    \<rho> (Handle Ecr_Repository ''myapp-repo'') ''repository_url'' =
      \<rho>' (Handle Ecr_Repository ''myapp-repo'') ''repository_url'' \<and>
    \<rho> (Handle Lb_LoadBalancer ''myapp-alb'') ''dns_name'' =
      \<rho>' (Handle Lb_LoadBalancer ''myapp-alb'') ''dns_name''"
  then have "snd (run d eng) = declarations d" "snd (run d eng') = declarations d"
    by (simp_all add: run_ok)
  with a show "map (\<lambda>kv. (fst kv, resolve \<rho> d (snd kv))) (exports (snd (run d eng))) =
      map (\<lambda>kv. (fst kv, resolve \<rho>' d (snd kv))) (exports (snd (run d eng')))"
    by (simp add: declarations_exports)
qed

theorem deterministic_configuration_witness:
  "fst (run (\<lambda>v. []) accept_all) = Inr () \<and>
   fst (run (\<lambda>v. []) (\<lambda>log r. if length log = 18 then Some (Error ''late'') else None)) = Inr () \<and>
   snd (run (\<lambda>v. []) accept_all) =
     snd (run (\<lambda>v. []) (\<lambda>log r. if length log = 18 then Some (Error ''late'') else None)) \<and>
   map (\<lambda>kv. (fst kv, resolve (\<lambda>h a. ''x'') (\<lambda>v. []) (snd kv)))
       (exports (snd (run (\<lambda>v. []) accept_all))) =
   map (\<lambda>kv. (fst kv, resolve (\<lambda>h a. if a = ''arn'' then ''y'' else ''x'') (\<lambda>v. []) (snd kv)))
       (exports (snd (run (\<lambda>v. [])
          (\<lambda>log r. if length log = 18 then Some (Error ''late'') else None))))"
proof -
  let ?d = "\<lambda>v::input. [] :: string"
  let ?eng = "\<lambda>(log::request list) (r::request). if length log = 18 then Some (Error ''late'') else None"
  have ok: "fst (run ?d accept_all) = Inr ()"
    by (simp add: run_accept_all)
  have ok': "fst (run ?d ?eng) = Inr ()"
    by (simp add: run_issue declarations_script script_def)
  have r1: "''x'' = (if ''repository_url'' = ''arn'' then ''y'' else ''x'')"
    by simp
  have r2: "''x'' = (if ''dns_name'' = ''arn'' then ''y'' else ''x'')"
    by simp
  from deterministic_configuration [of ?d accept_all ?eng "\<lambda>h a. ''x''"
        "\<lambda>h a. if a = ''arn'' then ''y'' else ''x''"] ok ok' r1 r2
  show ?thesis by blast
qed

section \<open>The network\<close>

lemma declarations_vpc:
  "of_type Ec2_Vpc (declarations d) =
     [\<lparr>rtype_of = Ec2_Vpc, name = ''myapp-vpc'',
       props = [(''cidr_block'', Str ''10.0.0.0/16''),
                (''enable_dns_hostnames'', Bool True),
                (''enable_dns_support'', Bool True)]\<rparr>]"
  by (simp add: declarations_script script_def of_type_def)

lemma declarations_subnets:
  "of_type Ec2_Subnet (declarations d) =
     [\<lparr>rtype_of = Ec2_Subnet, name = ''public-subnet-1'',
       props = [(''vpc_id'', Out (Attr (Handle Ec2_Vpc ''myapp-vpc'') ''id'')),
                (''cidr_block'', Str ''10.0.1.0/24''),
                (''availability_zone'', Str ''us-east-1a''),
                (''map_public_ip_on_launch'', Bool True)]\<rparr>,
      \<lparr>rtype_of = Ec2_Subnet, name = ''public-subnet-2'',
       props = [(''vpc_id'', Out (Attr (Handle Ec2_Vpc ''myapp-vpc'') ''id'')),
                (''cidr_block'', Str ''10.0.2.0/24''),
                (''availability_zone'', Str ''us-east-1b''),
                (''map_public_ip_on_launch'', Bool True)]\<rparr>]"
  by (simp add: declarations_script script_def of_type_def)

lemma cidr_vpc: "parse_cidr ''10.0.0.0/16'' = Some (167772160, 16)"
  by (simp add: parse_cidr_def parse_ipv4_def decimal_def digit_def)

lemma cidr_subnet_1: "parse_cidr ''10.0.1.0/24'' = Some (167772416, 24)"
  by (simp add: parse_cidr_def parse_ipv4_def decimal_def digit_def)

lemma cidr_subnet_2: "parse_cidr ''10.0.2.0/24'' = Some (167772672, 24)"
  by (simp add: parse_cidr_def parse_ipv4_def decimal_def digit_def)

lemma addresses_vpc: "cidr_addresses (167772160, 16) = {167772160 .. 167837695}"
  by (simp add: cidr_addresses_def cidr_first_def cidr_last_def)

lemma addresses_subnet_1: "cidr_addresses (167772416, 24) = {167772416 .. 167772671}"
  by (simp add: cidr_addresses_def cidr_first_def cidr_last_def)

lemma addresses_subnet_2: "cidr_addresses (167772672, 24) = {167772672 .. 167772927}"
  by (simp add: cidr_addresses_def cidr_first_def cidr_last_def)

text \<open>
  Claim C7. The script declares one VPC, with the block 10.0.0.0/16, and two subnets of
  it, with the blocks 10.0.1.0/24 and 10.0.2.0/24. The two subnet blocks have no address
  in common, each lies within the block of the VPC, and the subnets are in the two distinct
  availability zones us-east-1a and us-east-1b.
\<close>

theorem subnets_disjoint_within_vpc:
  "\<exists>v s1 s2 cv c1 c2.
     of_type Ec2_Vpc (declarations d) = [v] \<and>
     of_type Ec2_Subnet (declarations d) = [s1, s2] \<and>
     prop_of s1 ''vpc_id'' = Some (Out (Attr (handle_of v) ''id'')) \<and>
     prop_of s2 ''vpc_id'' = Some (Out (Attr (handle_of v) ''id'')) \<and>
     prop_of v ''cidr_block'' = Some (Str ''10.0.0.0/16'') \<and>
     prop_of s1 ''cidr_block'' = Some (Str ''10.0.1.0/24'') \<and>
     prop_of s2 ''cidr_block'' = Some (Str ''10.0.2.0/24'') \<and>
     cidr_of v = Some cv \<and> cidr_of s1 = Some c1 \<and> cidr_of s2 = Some c2 \<and>
     cidr_addresses cv = {167772160 .. 167837695} \<and>
     cidr_addresses c1 = {167772416 .. 167772671} \<and>
     cidr_addresses c2 = {167772672 .. 167772927} \<and>
     cidr_addresses c1 \<inter> cidr_addresses c2 = {} \<and>
     cidr_addresses c1 \<subseteq> cidr_addresses cv \<and>
     cidr_addresses c2 \<subseteq> cidr_addresses cv \<and>
     prop_of s1 ''availability_zone'' = Some (Str ''us-east-1a'') \<and>
     prop_of s2 ''availability_zone'' = Some (Str ''us-east-1b'') \<and>
     prop_of s1 ''availability_zone'' \<noteq> prop_of s2 ''availability_zone''"
  unfolding declarations_vpc declarations_subnets
  by (simp add: prop_of_def handle_of_def cidr_of_def cidr_vpc cidr_subnet_1 cidr_subnet_2
      addresses_vpc addresses_subnet_1 addresses_subnet_2)

section \<open>The task, the service and the load balancer\<close>

lemma declarations_task:
  "of_type Ecs_TaskDefinition (declarations d) =
     [\<lparr>rtype_of = Ecs_TaskDefinition, name = ''myapp-task'',
       props =
      [(''family'', Str ''myapp-task-family''),
       (''cpu'', Str ''256''),
       (''memory'', Str ''512''),
       (''network_mode'', Str ''awsvpc''),
       (''requires_compatibilities'', Arr [Str ''FARGATE'']),
       (''execution_role_arn'', Out (Attr (Handle Iam_Role ''myapp-task-exec-role'') ''arn'')),
       (''container_definitions'', Out (Json_dumps (Arr
          [Obj [(''name'', Str ''myapp''),
                (''image'', Out (Apply (\<lambda>url. url @ '':latest'')
                                  (Attr (Handle Ecr_Repository ''myapp-repo'') ''repository_url''))),
                (''portMappings'', Arr
                   [Obj [(''containerPort'', Num 3000),
                         (''hostPort'', Num 3000),
                         (''protocol'', Str ''tcp'')]]),
                (''secrets'', Arr
                   [Obj [(''name'', Str ''DATABASE_URL''),
                         (''valueFrom'', Str
                            ''arn:aws:ssm:us-east-1:774287600271:parameter/myapp/database_url'')]])]])))]\<rparr>]"
  by (simp add: declarations_script script_def of_type_def)

lemma declarations_service:
  "of_type Ecs_Service (declarations d) =
     [\<lparr>rtype_of = Ecs_Service, name = ''myapp-service'',
       props =
      [(''cluster'', Out (Attr (Handle Ecs_Cluster ''myapp-cluster'') ''arn'')),
       (''desired_count'', Num 1),
       (''task_definition'', Out (Attr (Handle Ecs_TaskDefinition ''myapp-task'') ''arn'')),
       (''network_configuration'', Obj
          [(''assign_public_ip'', Bool True),
           (''subnets'', Arr [Out (Attr (Handle Ec2_Subnet ''public-subnet-1'') ''id''),
                              Out (Attr (Handle Ec2_Subnet ''public-subnet-2'') ''id'')]),
           (''security_groups'', Arr [Out (Attr (Handle Ec2_SecurityGroup ''myapp-sg'') ''id'')])]),
       (''load_balancers'', Arr
          [Obj [(''target_group_arn'', Out (Attr (Handle Lb_TargetGroup ''myapp-tg'') ''arn'')),
                (''container_name'', Str ''myapp''),
                (''container_port'', Num 3000)]]),
       (''capacity_provider_strategies'', Arr
          [Obj [(''capacity_provider'', Str ''FARGATE_SPOT''),
                (''weight'', Num 1)]])]\<rparr>]"
  by (simp add: declarations_script script_def of_type_def)

text \<open>
  Claim C8. The service runs the one task definition the script declares. The container
  name and port it registers with the target group, \<^verbatim>\<open>myapp\<close> and 3000, are the name and
  the \<^verbatim>\<open>containerPort\<close> of the only container definition of that task definition, and its
  subnets and security groups are those of the load balancer.
\<close>

theorem service_matches_task_and_balancer:
  "\<exists>task service alb c pm lbc net.
     of_type Ecs_TaskDefinition (declarations d) = [task] \<and>
     of_type Ecs_Service (declarations d) = [service] \<and>
     of_type Lb_LoadBalancer (declarations d) = [alb] \<and>
     prop_of service ''task_definition'' = Some (Out (Attr (handle_of task) ''arn'')) \<and>
     prop_of task ''container_definitions'' = Some (Out (Json_dumps (Arr [c]))) \<and>
     field_of c ''portMappings'' = Some (Arr [pm]) \<and>
     prop_of service ''load_balancers'' = Some (Arr [lbc]) \<and>
     prop_of service ''network_configuration'' = Some net \<and>
     field_of lbc ''container_name'' = Some (Str ''myapp'') \<and>
     field_of c ''name'' = Some (Str ''myapp'') \<and>
     field_of lbc ''container_port'' = Some (Num 3000) \<and>
     field_of pm ''containerPort'' = Some (Num 3000) \<and>
     field_of net ''subnets'' =
       Some (Arr [Out (Attr (Handle Ec2_Subnet ''public-subnet-1'') ''id''),
                  Out (Attr (Handle Ec2_Subnet ''public-subnet-2'') ''id'')]) \<and>
     prop_of alb ''subnets'' = field_of net ''subnets'' \<and>
     field_of net ''security_groups'' =
       Some (Arr [Out (Attr (Handle Ec2_SecurityGroup ''myapp-sg'') ''id'')]) \<and>
     prop_of alb ''security_groups'' = field_of net ''security_groups''"
  unfolding declarations_task declarations_service declarations_load_balancer
  by (simp add: prop_of_def handle_of_def)

text \<open>
  Claim C9. The image of the task definition's only container is derived from the ECR
  repository the script declares: whatever the repository URL resolves to, the image is
  that URL followed by \<^verbatim>\<open>:latest\<close>, also in the container definitions as they are
  serialised.
\<close>

theorem image_from_own_repository:
  "\<exists>task repo c image.
     of_type Ecs_TaskDefinition (declarations d) = [task] \<and>
     of_type Ecr_Repository (declarations d) = [repo] \<and>
     prop_of task ''container_definitions'' = Some (Out (Json_dumps (Arr [c]))) \<and>
     field_of c ''image'' = Some image \<and>
     (\<forall>\<rho>. resolve \<rho> d image = Str (\<rho> (handle_of repo) ''repository_url'' @ '':latest'')) \<and>
     (\<forall>\<rho>. field_of (resolve \<rho> d c) ''image'' =
        Some (Str (\<rho> (handle_of repo) ''repository_url'' @ '':latest'')))"
  unfolding declarations_task declarations_repository
  by (simp add: prop_of_def handle_of_def)

end
